theory Spec2Isabelle
  imports Complex_Main
begin

section \<open>ACS zeropoints notebook: aperture corrections and magnitudes\<close>

text \<open>
  The notebook \<^verbatim>\<open>acs_zeropoints.ipynb\<close> computes, with numpy on float64 arrays,
  \<^item> the aperture correction chain (\<^verbatim>\<open>flux05\<close>, \<^verbatim>\<open>flux_inf\<close>),
  \<^item> the STMag and ABMag zeropoints from \<^verbatim>\<open>PHOTFLAM\<close> and \<^verbatim>\<open>PHOTPLAM\<close>
    (\<^verbatim>\<open>zp_stmag\<close>, \<^verbatim>\<open>zp_abmag\<close>),
  \<^item> the flux density and the three magnitudes of every source
    (\<^verbatim>\<open>f_lambda\<close>, \<^verbatim>\<open>stmags\<close>, \<^verbatim>\<open>abmags\<close>, \<^verbatim>\<open>vegamags\<close>) and the result table
    (\<^verbatim>\<open>phot_table\<close>).
  The quantities that come out of the synthetic photometry library (\<^verbatim>\<open>photflam\<close>,
  \<^verbatim>\<open>photplam\<close>, \<^verbatim>\<open>zp_vega\<close>, \<^verbatim>\<open>correction_02_to_05\<close>) are inputs of the model.
\<close>

subsection \<open>numpy float64 values\<close>

text \<open>
  A float64 is a finite number, one of the two infinities, or NaN. numpy's arithmetic and
  \<^verbatim>\<open>np.log10\<close> never raise under numpy's default error state: outside their domain
  they return an infinity or NaN (and print a \<^verbatim>\<open>RuntimeWarning\<close>), which is what the
  operations below do.

  Finite values are modelled in two layers. In the first, the operations \<open>np_add\<close>,
  \<open>np_mul\<close>, \<open>np_div\<close> and \<open>np_log10\<close> return the exact real result, without the
  rounding to 53 bits. The range of binary64 is modelled for the division, the
  operation of the aperture correction chain: a quotient too large for binary64 is an
  infinity, one too small is zero. Products and sums are exact, so a statement about a
  product carries the hypothesis that the product is in the range. In the second layer
  (the operations \<open>f64_add\<close>, \<open>f64_mul\<close>, \<open>f64_div\<close> and \<open>f64_log10\<close> below) the exact
  result is rounded to the nearest float64. The formulas of the notebook are stated in
  the first layer; the properties that rounding decides (whether a magnitude strictly
  decreases, whether two divisions equal one) are stated in the second. The sign of a
  zero is not modelled:
  \<open>Fin 0\<close> stands for \<^verbatim>\<open>0.0\<close> and \<^verbatim>\<open>-0.0\<close>, and a division by \<open>Fin 0\<close> is the division
  by \<^verbatim>\<open>0.0\<close> (by \<^verbatim>\<open>-0.0\<close> the infinity has the other sign).
\<close>

datatype float64 = Fin real | PInf | NInf | NaN

fun is_finite :: "float64 \<Rightarrow> bool" where
  "is_finite (Fin x) = True"
| "is_finite _ = False"

fun np_neg :: "float64 \<Rightarrow> float64" where
  "np_neg (Fin x) = Fin (- x)"
| "np_neg PInf = NInf"
| "np_neg NInf = PInf"
| "np_neg NaN = NaN"

fun np_add :: "float64 \<Rightarrow> float64 \<Rightarrow> float64" where
  "np_add NaN _ = NaN"
| "np_add _ NaN = NaN"
| "np_add (Fin x) (Fin y) = Fin (x + y)"
| "np_add (Fin x) PInf = PInf"
| "np_add (Fin x) NInf = NInf"
| "np_add PInf (Fin y) = PInf"
| "np_add NInf (Fin y) = NInf"
| "np_add PInf PInf = PInf"
| "np_add NInf NInf = NInf"
| "np_add PInf NInf = NaN"
| "np_add NInf PInf = NaN"

definition np_sub :: "float64 \<Rightarrow> float64 \<Rightarrow> float64" where
  "np_sub a b = np_add a (np_neg b)"

fun np_mul :: "float64 \<Rightarrow> float64 \<Rightarrow> float64" where
  "np_mul NaN _ = NaN"
| "np_mul _ NaN = NaN"
| "np_mul (Fin x) (Fin y) = Fin (x * y)"
| "np_mul (Fin x) PInf = (if 0 < x then PInf else if x < 0 then NInf else NaN)"
| "np_mul (Fin x) NInf = (if 0 < x then NInf else if x < 0 then PInf else NaN)"
| "np_mul PInf (Fin y) = (if 0 < y then PInf else if y < 0 then NInf else NaN)"
| "np_mul NInf (Fin y) = (if 0 < y then NInf else if y < 0 then PInf else NaN)"
| "np_mul PInf PInf = PInf"
| "np_mul NInf NInf = PInf"
| "np_mul PInf NInf = NInf"
| "np_mul NInf PInf = NInf"

text \<open>
  The range of binary64. A real at or above \<open>2^1024 - 2^970\<close> in absolute value, half a
  unit in the last place above the largest float64, rounds to an infinity; one at or
  below \<open>2^-1075\<close>, half the smallest positive float64, rounds to zero. The normal
  range, where rounding changes a number by at most one part in \<open>2^53\<close>, is from
  \<open>2^-1022\<close> to the largest float64, \<open>2^1024 - 2^971\<close>.
\<close>

definition f64_overflow :: real where
  "f64_overflow = 2 ^ 1024 - 2 ^ 970"

definition f64_underflow :: real where
  "f64_underflow = 1 / 2 ^ 1075"

definition to_range :: "real \<Rightarrow> float64" where
  "to_range q =
     (if f64_overflow \<le> q then PInf
      else if q \<le> - f64_overflow then NInf
      else if \<bar>q\<bar> \<le> f64_underflow then Fin 0
      else Fin q)"

definition f64_normal :: "real \<Rightarrow> bool" where
  "f64_normal q \<longleftrightarrow> q = 0 \<or> (1 / 2 ^ 1022 \<le> \<bar>q\<bar> \<and> \<bar>q\<bar> \<le> 2 ^ 1024 - 2 ^ 971)"

text \<open>
  \<^verbatim>\<open>/\<close> on float64 (numpy's \<^verbatim>\<open>true_divide\<close>): a nonzero number over zero is an infinity,
  zero over zero and infinity over infinity are NaN; the quotient of two finite numbers
  overflows to an infinity and underflows to zero.
\<close>

fun np_div :: "float64 \<Rightarrow> float64 \<Rightarrow> float64" where
  "np_div NaN _ = NaN"
| "np_div _ NaN = NaN"
| "np_div (Fin x) (Fin y) =
     (if y \<noteq> 0 then to_range (x / y)
      else if 0 < x then PInf else if x < 0 then NInf else NaN)"
| "np_div (Fin x) PInf = Fin 0"
| "np_div (Fin x) NInf = Fin 0"
| "np_div PInf (Fin y) = (if y < 0 then NInf else PInf)"
| "np_div NInf (Fin y) = (if y < 0 then PInf else NInf)"
| "np_div PInf PInf = NaN"
| "np_div PInf NInf = NaN"
| "np_div NInf PInf = NaN"
| "np_div NInf NInf = NaN"

text \<open>
  \<^verbatim>\<open>np.log10\<close>: the logarithm of zero is \<open>-inf\<close>, of a negative number (and of \<open>-inf\<close>)
  NaN; no exception.
\<close>

fun np_log10 :: "float64 \<Rightarrow> float64" where
  "np_log10 (Fin x) = (if 0 < x then Fin (log 10 x) else if x = 0 then NInf else NaN)"
| "np_log10 PInf = PInf"
| "np_log10 NInf = NaN"
| "np_log10 NaN = NaN"


subsection \<open>The aperture correction chain\<close>

text \<open>
  \<^verbatim>\<open>flux05 = instrumental_flux / correction_02_to_05\<close>

  \<^verbatim>\<open>flux_inf = flux05 / correction_05_to_inf\<close>

  An array divided by a scalar: the division is applied to every element.
\<close>

definition flux05 :: "float64 list \<Rightarrow> float64 \<Rightarrow> float64 list" where
  "flux05 instrumental_flux correction_02_to_05 =
     map (\<lambda>x. np_div x correction_02_to_05) instrumental_flux"

definition flux_inf :: "float64 list \<Rightarrow> float64 \<Rightarrow> float64 \<Rightarrow> float64 list" where
  "flux_inf instrumental_flux correction_02_to_05 correction_05_to_inf =
     map (\<lambda>x. np_div x correction_05_to_inf) (flux05 instrumental_flux correction_02_to_05)"

subsection \<open>Zeropoints\<close>

text \<open>
  \<^verbatim>\<open>zp_stmag = -2.5 * np.log10(photflam) - 21.10\<close>

  \<^verbatim>\<open>zp_abmag = -2.5 * np.log10(photflam) - (5 * np.log10(photplam)) - 2.408\<close>
\<close>

definition zp_stmag :: "float64 \<Rightarrow> float64" where
  "zp_stmag photflam = np_sub (np_mul (Fin (- 2.5)) (np_log10 photflam)) (Fin 21.10)"

definition zp_abmag :: "float64 \<Rightarrow> float64 \<Rightarrow> float64" where
  "zp_abmag photflam photplam =
     np_sub
       (np_sub (np_mul (Fin (- 2.5)) (np_log10 photflam))
               (np_mul (Fin 5) (np_log10 photplam)))
       (Fin 2.408)"

subsection \<open>Flux densities and magnitudes\<close>

text \<open>
  \<^verbatim>\<open>f_lambda = flux_inf * photflam\<close>

  \<^verbatim>\<open>stmags = -2.5 * np.log10(flux_inf) + zp_stmag\<close>

  \<^verbatim>\<open>abmags = -2.5 * np.log10(flux_inf) + zp_abmag\<close>

  \<^verbatim>\<open>vegamags = -2.5 * np.log10(flux_inf) + zp_vega\<close>

  A scalar times an array, and an array plus a scalar: elementwise.
\<close>

definition f_lambda :: "float64 list \<Rightarrow> float64 \<Rightarrow> float64 list" where
  "f_lambda fluxinf photflam = map (\<lambda>x. np_mul x photflam) fluxinf"

definition stmags :: "float64 list \<Rightarrow> float64 \<Rightarrow> float64 list" where
  "stmags fluxinf zpstmag =
     map (\<lambda>x. np_add (np_mul (Fin (- 2.5)) (np_log10 x)) zpstmag) fluxinf"

definition abmags :: "float64 list \<Rightarrow> float64 \<Rightarrow> float64 list" where
  "abmags fluxinf zpabmag =
     map (\<lambda>x. np_add (np_mul (Fin (- 2.5)) (np_log10 x)) zpabmag) fluxinf"

definition vegamags :: "float64 list \<Rightarrow> float64 \<Rightarrow> float64 list" where
  "vegamags fluxinf zpvega =
     map (\<lambda>x. np_add (np_mul (Fin (- 2.5)) (np_log10 x)) zpvega) fluxinf"

subsection \<open>The result table\<close>

text \<open>
  \<^verbatim>\<open>phot_table = Table({'Measured Flux': instrumental_flux, 'F_lambda': f_lambda,
  'ST Mag': stmags, 'AB Mag': abmags, 'Vega Mag': vegamags})\<close>

  The table has one row per index of its columns; a row is a photometry result.
  \<^verbatim>\<open>Table\<close> raises \<^verbatim>\<open>ValueError\<close> when its columns do not have the same length; the
  arithmetic of the cells before it raises nothing.
\<close>

record photometry_result =
  Measured_Flux :: float64
  F_lambda :: float64
  ST_Mag :: float64
  AB_Mag :: float64
  Vega_Mag :: float64

datatype py_error = ValueError

fun table_rows ::
  "float64 list \<Rightarrow> float64 list \<Rightarrow> float64 list \<Rightarrow> float64 list \<Rightarrow> float64 list
     \<Rightarrow> photometry_result list" where
  "table_rows (m # ms) (f # fs) (s # ss) (a # as) (v # vs) =
     \<lparr>Measured_Flux = m, F_lambda = f, ST_Mag = s, AB_Mag = a, Vega_Mag = v\<rparr>
       # table_rows ms fs ss as vs"
| "table_rows _ _ _ _ _ = []"

definition Table ::
  "float64 list \<Rightarrow> float64 list \<Rightarrow> float64 list \<Rightarrow> float64 list \<Rightarrow> float64 list
     \<Rightarrow> py_error + photometry_result list" where
  "Table measured fl st ab vega =
     (if length fl = length measured \<and> length st = length measured \<and>
         length ab = length measured \<and> length vega = length measured
      then Inr (table_rows measured fl st ab vega)
      else Inl ValueError)"

text \<open>
  The cells from the aperture correction to the table, run in the notebook's order on
  the measured fluxes, the two correction factors, the calibration constants and the
  VegaMag zeropoint.
\<close>

definition phot_table ::
  "float64 list \<Rightarrow> float64 \<Rightarrow> float64 \<Rightarrow> float64 \<Rightarrow> float64 \<Rightarrow> float64
     \<Rightarrow> py_error + photometry_result list" where
  "phot_table instrumental_flux correction_02_to_05 correction_05_to_inf
       photflam photplam zp_vega =
     (let fluxinf = flux_inf instrumental_flux correction_02_to_05 correction_05_to_inf
      in Table instrumental_flux
           (f_lambda fluxinf photflam)
           (stmags fluxinf (zp_stmag photflam))
           (abmags fluxinf (zp_abmag photflam photplam))
           (vegamags fluxinf zp_vega))"

subsection \<open>Rounding to binary64\<close>

text \<open>
  An operation of IEEE 754 arithmetic returns the exact result rounded to the nearest
  float64, a tie going to the float64 with the even significand. The float64 of
  magnitude from \<open>2^e\<close> up to \<open>2^(e+1)\<close>, for \<open>e \<ge> -1022\<close>, are the multiples of
  \<open>2^(e-52)\<close>; below \<open>2^-1022\<close> (the subnormal numbers) they are the multiples of
  \<open>2^-1074\<close>. \<open>grid y\<close> is this spacing at the magnitude \<open>y\<close>, \<open>round_mag\<close> rounds a
  magnitude to the nearest multiple of it, \<open>round_f64\<close> puts the sign back, and \<open>b64\<close>
  is the float64 that results: a number that rounds to \<open>2^1024\<close> in magnitude is an
  infinity.
\<close>

definition round_half_even :: "real \<Rightarrow> int" where
  "round_half_even q =
     (let n = \<lfloor>q\<rfloor> in
      if q - of_int n < 1 / 2 then n
      else if 1 / 2 < q - of_int n then n + 1
      else if even n then n else n + 1)"

definition grid :: "real \<Rightarrow> real" where
  "grid y = 2 powr (of_int (max \<lfloor>log 2 y\<rfloor> (- 1022)) - 52)"

definition round_mag :: "real \<Rightarrow> real" where
  "round_mag y = of_int (round_half_even (y / grid y)) * grid y"

definition round_f64 :: "real \<Rightarrow> real" where
  "round_f64 x = sgn x * round_mag \<bar>x\<bar>"

definition b64 :: "real \<Rightarrow> float64" where
  "b64 x =
     (let r = round_f64 x in
      if 2 ^ 1024 \<le> r then PInf else if r \<le> - (2 ^ 1024) then NInf else Fin r)"

text \<open>
  The rounded operations: the exact operation, then the rounding of a finite result.
  numpy's \<^verbatim>\<open>/\<close>, \<^verbatim>\<open>*\<close> and \<^verbatim>\<open>+\<close> on float64 are the correctly rounded operations of
  IEEE 754. \<^verbatim>\<open>np.log10\<close> is modelled as correctly rounded too; the C library that
  numpy calls promises only a result within about one unit in the last place.
\<close>

fun fl :: "float64 \<Rightarrow> float64" where
  "fl (Fin x) = b64 x"
| "fl v = v"

definition f64_div :: "float64 \<Rightarrow> float64 \<Rightarrow> float64" where
  "f64_div a b = fl (np_div a b)"

definition f64_mul :: "float64 \<Rightarrow> float64 \<Rightarrow> float64" where
  "f64_mul a b = fl (np_mul a b)"


definition f64_log10 :: "float64 \<Rightarrow> float64" where
  "f64_log10 a = fl (np_log10 a)"


text \<open>
  The aperture correction chain and the ST magnitudes with the rounded operations: the
  expressions of \<open>flux05\<close>, \<open>flux_inf\<close> and \<open>stmags\<close> above, operation by operation.

  \<^verbatim>\<open>flux05 = instrumental_flux / correction_02_to_05\<close>

  \<^verbatim>\<open>flux_inf = flux05 / correction_05_to_inf\<close>

  \<^verbatim>\<open>stmags = -2.5 * np.log10(flux_inf) + zp_stmag\<close>
\<close>

definition flux05_f64 :: "float64 list \<Rightarrow> float64 \<Rightarrow> float64 list" where
  "flux05_f64 raw_flux correction_02_to_05 =
     map (\<lambda>x. f64_div x correction_02_to_05) raw_flux"

definition flux_inf_f64 :: "float64 list \<Rightarrow> float64 \<Rightarrow> float64 \<Rightarrow> float64 list" where
  "flux_inf_f64 raw_flux correction_02_to_05 c_05_to_inf =
     map (\<lambda>x. f64_div x c_05_to_inf)
       (flux05_f64 raw_flux correction_02_to_05)"


text \<open>
  The single division \<open>flux_raw / (c1 * c2)\<close>, with which the chain is compared below.
  The notebook has no such expression: it is the other side of the identity
  \<open>(flux_raw / c1) / c2 = flux_raw / (c1 * c2)\<close>.
\<close>

definition single_division_f64 :: "float64 \<Rightarrow> float64 \<Rightarrow> float64 \<Rightarrow> float64" where
  "single_division_f64 flux_raw c1 c2 = f64_div flux_raw (f64_mul c1 c2)"

text \<open>
  A real is safe when its magnitude is between \<open>2^-1000\<close> and \<open>2^1000\<close>, away from the
  overflow and underflow thresholds of binary64.
\<close>

definition f64_safe :: "real \<Rightarrow> bool" where
  "f64_safe t \<longleftrightarrow> 1 / 2 ^ 1000 \<le> \<bar>t\<bar> \<and> \<bar>t\<bar> \<le> 2 ^ 1000"

subsection \<open>The notebook's data\<close>

text \<open>
  \<^verbatim>\<open>instrumental_flux = np.array([5.2393, 7.2935, 3.2355, 4.9368])\<close>

  \<^verbatim>\<open>correction_05_to_inf = 0.915\<close>
\<close>

definition instrumental_flux :: "float64 list" where
  "instrumental_flux = [Fin 5.2393, Fin 7.2935, Fin 3.2355, Fin 4.9368]"

definition correction_05_to_inf :: float64 where
  "correction_05_to_inf = Fin 0.915"

section \<open>Auxiliary facts\<close>

lemma log10_tenth_power_18: "log 10 (1 / 10 ^ 18) = - 18"
proof -
  have "log 10 ((10::real) ^ 18) = real 18 * log 10 10"
    by (rule log_nat_power) simp
  then have "log 10 ((10::real) ^ 18) = 18" by simp
  moreover have "log 10 (1 / 10 ^ 18) = - log 10 ((10::real) ^ 18)"
    by (simp only: log_divide log_one) simp
  ultimately show ?thesis by simp
qed

lemma to_range_normal: "f64_normal q \<Longrightarrow> to_range q = Fin q"
  by (auto simp: f64_normal_def to_range_def f64_overflow_def f64_underflow_def)

lemma to_range_cases:
  "to_range q = PInf \<or> to_range q = NInf \<or> to_range q = Fin 0 \<or> to_range q = Fin q"
  by (simp add: to_range_def)

lemma np_div_normal:
  "c \<noteq> 0 \<Longrightarrow> f64_normal (x / c) \<Longrightarrow> np_div (Fin x) (Fin c) = Fin (x / c)"
  by (simp add: to_range_normal)

lemma division_by_zero_not_finite:
  assumes "c1 = 0 \<or> c2 = 0"
  shows "\<not> is_finite (np_div (np_div x (Fin c1)) (Fin c2))"
proof (cases x)
  case (Fin r)
  show ?thesis
  proof (cases "c1 = 0")
    case True
    with Fin show ?thesis by auto
  next
    case False
    with assms have c2: "c2 = 0" by simp
    from to_range_cases [of "r / c1"] False Fin c2 show ?thesis
      by (auto split: if_splits)
  qed
qed (use assms in auto)

lemma table_rows_length:
  "length fs = length ms \<Longrightarrow> length ss = length ms \<Longrightarrow> length as = length ms \<Longrightarrow>
   length vs = length ms \<Longrightarrow> length (table_rows ms fs ss as vs) = length ms"
proof (induction ms arbitrary: fs ss as vs)
  case Nil
  then show ?case by simp
next
  case (Cons m ms)
  then obtain f fs' s ss' a as' v vs' where
    "fs = f # fs'" "ss = s # ss'" "as = a # as'" "vs = v # vs'"
    by (metis length_Suc_conv)
  with Cons show ?case by simp
qed

lemma table_rows_nth:
  "length fs = length ms \<Longrightarrow> length ss = length ms \<Longrightarrow> length as = length ms \<Longrightarrow>
   length vs = length ms \<Longrightarrow> i < length ms \<Longrightarrow>
   table_rows ms fs ss as vs ! i =
     \<lparr>Measured_Flux = ms ! i, F_lambda = fs ! i, ST_Mag = ss ! i, AB_Mag = as ! i,
      Vega_Mag = vs ! i\<rparr>"
proof (induction ms arbitrary: fs ss as vs i)
  case Nil
  then show ?case by simp
next
  case (Cons m ms)
  then obtain f fs' s ss' a as' v vs' where
    eqs: "fs = f # fs'" "ss = s # ss'" "as = a # as'" "vs = v # vs'"
    by (metis length_Suc_conv)
  show ?case
  proof (cases i)
    case 0
    with eqs show ?thesis by simp
  next
    case (Suc j)
    with Cons eqs show ?thesis by simp
  qed
qed

lemma table_rows_map:
  "table_rows ms (map f ms) (map s ms) (map a ms) (map v ms) =
     map (\<lambda>m. \<lparr>Measured_Flux = m, F_lambda = f m, ST_Mag = s m, AB_Mag = a m,
                Vega_Mag = v m\<rparr>) ms"
  by (induction ms) simp_all

text \<open>The table, row by row: each row is computed from its own measured flux.\<close>

lemma phot_table_rows:
  "phot_table raw c1 c2 pf pp zv =
     Inr (map (\<lambda>m. \<lparr>Measured_Flux = m,
                     F_lambda = np_mul (np_div (np_div m c1) c2) pf,
                     ST_Mag = np_add (np_mul (Fin (- 2.5)) (np_log10 (np_div (np_div m c1) c2)))
                                (zp_stmag pf),
                     AB_Mag = np_add (np_mul (Fin (- 2.5)) (np_log10 (np_div (np_div m c1) c2)))
                                (zp_abmag pf pp),
                     Vega_Mag = np_add (np_mul (Fin (- 2.5)) (np_log10 (np_div (np_div m c1) c2)))
                                zv\<rparr>) raw)"
  by (simp add: phot_table_def Let_def Table_def flux_inf_def flux05_def f_lambda_def
      stmags_def abmags_def vegamags_def comp_def table_rows_map del: np_div.simps)

subsection \<open>Rounding\<close>

text \<open>
  Rounding to the nearest float64 is monotone, changes a number of the normal range by
  at most one part in \<open>2^53\<close>, and its value is determined by the nearest multiple of
  the spacing.
\<close>

lemma rhe_bounds: "\<bar>of_int (round_half_even q) - q\<bar> \<le> 1 / 2"
  unfolding round_half_even_def Let_def by (auto simp: abs_le_iff)

lemma rhe_near: "\<bar>q - of_int n\<bar> < 1 / 2 \<Longrightarrow> round_half_even q = n"
proof -
  assume a: "\<bar>q - of_int n\<bar> < 1 / 2"
  from rhe_bounds [of q] have "\<bar>of_int (round_half_even q) - of_int n :: real\<bar> < 1"
    using a by linarith
  then have "\<bar>round_half_even q - n\<bar> < 1"
    by (metis of_int_diff of_int_abs of_int_less_1_iff)
  then show ?thesis by linarith
qed




lemma grid_pos: "0 < grid y"
  by (simp add: grid_def)


lemma above_power:
  assumes "0 < y" and "- 1022 \<le> \<lfloor>log 2 y\<rfloor>"
  shows "2 powr (of_int (max \<lfloor>log 2 y\<rfloor> (- 1022))) \<le> y"
proof -
  have "max \<lfloor>log 2 y\<rfloor> (- 1022) = \<lfloor>log 2 y\<rfloor>" using assms(2) by simp
  moreover have "of_int \<lfloor>log 2 y\<rfloor> \<le> log 2 y" by simp
  then have "2 powr (of_int \<lfloor>log 2 y\<rfloor>) \<le> 2 powr (log 2 y)"
    by (simp del: of_int_floor_le)
  ultimately show ?thesis using assms(1) by simp
qed

lemma round_mag_error: "\<bar>round_mag y - y\<bar> \<le> grid y / 2"
proof -
  let ?g = "grid y" and ?n = "of_int (round_half_even (y / grid y)) :: real"
  have g: "0 < ?g" by (rule grid_pos)
  have "\<bar>?n - y / ?g\<bar> * ?g \<le> 1 / 2 * ?g"
    using rhe_bounds [of "y / ?g"] g by (intro mult_right_mono) simp_all
  moreover have "(?n - y / ?g) * ?g = ?n * ?g - y"
    using g by (simp add: algebra_simps)
  then have "\<bar>?n - y / ?g\<bar> * ?g = \<bar>?n * ?g - y\<bar>"
    using g by (metis abs_mult abs_of_pos)
  ultimately show ?thesis by (simp add: round_mag_def)
qed




lemma grid_shift:
  "(2::real) powr (of_int e) = 2 ^ 52 * 2 powr (of_int e - 52)"
proof -
  have "of_int e = 52 + (of_int e - 52 :: real)" by simp
  then have "(2::real) powr (of_int e) = 2 powr (52 + (of_int e - 52))" by (rule arg_cong)
  also have "\<dots> = 2 powr 52 * 2 powr (of_int e - 52)" by (rule powr_add)
  finally show ?thesis by simp
qed







lemma b64_not_nan: "b64 x \<noteq> NaN"
  by (simp add: b64_def Let_def)

lemma round_f64_zero: "round_f64 0 = 0"
  by (simp add: round_f64_def)

lemma round_f64_error: "x \<noteq> 0 \<Longrightarrow> \<bar>round_f64 x - x\<bar> \<le> grid \<bar>x\<bar> / 2"
proof -
  assume "x \<noteq> 0"
  then consider "0 < x" | "x < 0" by linarith
  then have "\<bar>round_f64 x - x\<bar> = \<bar>round_mag \<bar>x\<bar> - \<bar>x\<bar>\<bar>"
  proof cases
    case 1
    then show ?thesis by (simp add: round_f64_def)
  next
    case 2
    then have "round_f64 x - x = - (round_mag \<bar>x\<bar> - \<bar>x\<bar>)"
      by (simp add: round_f64_def)
    then show ?thesis by simp
  qed
  with round_mag_error [of "\<bar>x\<bar>"] show ?thesis by simp
qed

lemma grid_normal:
  assumes "1 / 2 ^ 1022 \<le> y"
  shows "grid y / 2 \<le> y / 2 ^ 53"
proof -
  have "0 < 1 / (2::real) ^ 1022" by simp
  with assms have y: "0 < y" by linarith
  have "(2::real) powr (- 1022) = 1 / 2 ^ 1022"
    by (simp add: powr_minus_divide)
  with assms have "2 powr (- 1022) \<le> 2 powr (log 2 y)" using y by simp
  then have "- 1022 \<le> log 2 y" by simp
  then have "- 1022 \<le> \<lfloor>log 2 y\<rfloor>" by (simp add: le_floor_iff)
  from above_power [OF y this] grid_shift [of "max \<lfloor>log 2 y\<rfloor> (- 1022)"]
  have "2 ^ 52 * grid y \<le> y" by (simp add: grid_def)
  then show ?thesis by simp
qed

lemma grid_general:
  assumes "0 < y"
  shows "grid y / 2 \<le> y / 2 ^ 53 + 1 / 2 ^ 1075"
proof (cases "1 / 2 ^ 1022 \<le> y")
  case True
  have "0 \<le> 1 / (2::real) ^ 1075" by simp
  with grid_normal [OF True] show ?thesis by linarith
next
  case False
  have "(2::real) powr (- 1022) = 1 / 2 ^ 1022"
    by (simp add: powr_minus_divide)
  with False have "2 powr (log 2 y) < 2 powr (- 1022)" using assms by simp
  then have "log 2 y < - 1022" by simp
  then have "\<lfloor>log 2 y\<rfloor> < - 1022" by (simp add: floor_less_iff)
  then have "max \<lfloor>log 2 y\<rfloor> (- 1022) = - 1022" by simp
  then have "grid y = 2 powr (- 1074)" by (simp add: grid_def)
  also have "\<dots> = 1 / 2 ^ 1074" by (simp add: powr_minus_divide)
  finally have "grid y / 2 = 1 / 2 ^ 1075" by simp
  moreover have "0 \<le> y / 2 ^ 53" using assms by simp
  ultimately show ?thesis by linarith
qed

lemma round_f64_error_normal:
  assumes "1 / 2 ^ 1022 \<le> \<bar>x\<bar>"
  shows "\<bar>round_f64 x - x\<bar> \<le> \<bar>x\<bar> / 2 ^ 53"
proof -
  have "0 < 1 / (2::real) ^ 1022" by simp
  with assms have "x \<noteq> 0" by auto
  from round_f64_error [OF this] grid_normal [OF assms] show ?thesis by linarith
qed

lemma round_f64_error_general: "\<bar>round_f64 x - x\<bar> \<le> \<bar>x\<bar> / 2 ^ 53 + 1 / 2 ^ 1075"
proof (cases "x = 0")
  case True
  then show ?thesis by (simp add: round_f64_zero)
next
  case False
  then have "0 < \<bar>x\<bar>" by simp
  from round_f64_error [OF False] grid_general [OF this] show ?thesis by linarith
qed

lemma b64_small:
  assumes "\<bar>t\<bar> \<le> 2 ^ 1023"
  shows "\<exists>r. b64 t = Fin r \<and> \<bar>r - t\<bar> \<le> \<bar>t\<bar> / 2 ^ 53 + 1 / 2 ^ 1075"
proof -
  let ?r = "round_f64 t"
  have e: "\<bar>?r - t\<bar> \<le> \<bar>t\<bar> / 2 ^ 53 + 1 / 2 ^ 1075"
    by (rule round_f64_error_general)
  have "\<bar>t\<bar> / 2 ^ 53 \<le> 2 ^ 1023 / (2::real) ^ 53"
    using assms by (simp add: divide_right_mono)
  moreover have "(2::real) ^ 1023 + 2 ^ 1023 / 2 ^ 53 + 1 / 2 ^ 1075 < 2 ^ 1024" by simp
  ultimately have "\<bar>?r\<bar> < 2 ^ 1024" using e assms by linarith
  then have "b64 t = Fin ?r" by (simp add: b64_def Let_def abs_less_iff)
  with e show ?thesis by blast
qed

lemma b64_normal:
  assumes "1 / 2 ^ 1022 \<le> \<bar>t\<bar>" and "\<bar>t\<bar> \<le> 2 ^ 1023"
  shows "\<exists>r. b64 t = Fin r \<and> \<bar>r - t\<bar> \<le> \<bar>t\<bar> / 2 ^ 53"
proof -
  from b64_small [OF assms(2)] obtain r where r: "b64 t = Fin r" by blast
  then have "r = round_f64 t" by (simp add: b64_def Let_def split: if_splits)
  with round_f64_error_normal [OF assms(1)] r show ?thesis by blast
qed

lemma round_mag_eval:
  assumes "0 < y" and "2 powr (of_int k) \<le> y" and "y < 2 powr (of_int k + 1)"
    and "- 1022 \<le> k" and "\<bar>y / 2 powr (of_int k - 52) - of_int n\<bar> < 1 / 2"
  shows "round_mag y = of_int n * 2 powr (of_int k - 52)"
proof -
  have "\<lfloor>log 2 y\<rfloor> = k"
    using assms(1-3) by (simp add: floor_log_eq_powr_iff)
  with assms(4) have "grid y = 2 powr (of_int k - 52)" by (simp add: grid_def)
  with assms(5) show ?thesis by (simp add: round_mag_def rhe_near)
qed

lemma b64_eval:
  assumes "0 < y" and "2 powr (of_int k) \<le> y" and "y < 2 powr (of_int k + 1)"
    and "- 1022 \<le> k" and "k \<le> 1000" and "\<bar>y / 2 powr (of_int k - 52) - of_int n\<bar> < 1 / 2"
  shows "b64 y = Fin (of_int n * 2 powr (of_int k - 52))"
proof -
  have r: "round_f64 y = of_int n * 2 powr (of_int k - 52)"
    using round_mag_eval [OF assms(1-4,6)] assms(1) by (simp add: round_f64_def)
  have "(of_int k :: real) + 1 \<le> 1001"
    using assms(5) by (metis of_int_le_iff of_int_numeral add_le_cancel_right
        numeral_plus_one semiring_norm(5) semiring_norm(8) of_int_1 of_int_add)
  then have "2 powr (of_int k + 1) \<le> (2::real) powr 1001"
    by (intro powr_mono) simp_all
  with assms(3) have "y \<le> 2 ^ 1023"
    by (simp add: order_trans [where y = "(2::real) ^ 1001"] less_imp_le)
  then have "\<bar>y\<bar> \<le> 2 ^ 1023" using assms(1) by simp
  from b64_small [OF this] obtain q where "b64 y = Fin q" by blast
  then have "b64 y = Fin (round_f64 y)" by (simp add: b64_def Let_def split: if_splits)
  with r show ?thesis by simp
qed

lemma b64_example_1: "b64 (10 / 3) = Fin (7505999378950827 / 2 ^ 51)"
  using b64_eval [of "10 / 3" 1 7505999378950827]
  by (simp add: powr_minus_divide)

lemma to_range_mid:
  "1 / 2 ^ 1022 \<le> \<bar>t\<bar> \<Longrightarrow> \<bar>t\<bar> \<le> 2 ^ 1023 \<Longrightarrow> to_range t = Fin t"
  by (rule to_range_normal) (auto simp: f64_normal_def)

lemma b64_example_2:
  "b64 (7505999378950827 / 2 ^ 51 / 10) = Fin (6004799503160662 / 2 ^ 54)"
  using b64_eval [of "7505999378950827 / 2 ^ 51 / 10" "- 2" 6004799503160662]
  by (simp add: powr_minus_divide)

lemma b64_example_3: "b64 30 = Fin 30"
  using b64_eval [of 30 4 "30 * 2 ^ 48"]
  by (simp add: powr_minus_divide)

lemma b64_example_4: "b64 (10 / 30) = Fin (6004799503160661 / 2 ^ 54)"
  using b64_eval [of "10 / 30" "- 2" 6004799503160661]
  by (simp add: powr_minus_divide)

lemma chain_example:
  "flux_inf_f64 [Fin 10] (Fin 3) (Fin 10) = [Fin (6004799503160662 / 2 ^ 54)]"
  using b64_example_1 b64_example_2
  by (simp add: flux_inf_f64_def flux05_f64_def f64_div_def to_range_mid)

lemma single_example:
  "f64_div (Fin 10) (f64_mul (Fin 3) (Fin 10)) = Fin (6004799503160661 / 2 ^ 54)"
  using b64_example_3 b64_example_4
  by (simp add: f64_div_def f64_mul_def to_range_mid)

lemma safe_wider:
  assumes "f64_safe t"
  shows "1 / 2 ^ 1001 \<le> \<bar>t\<bar>" and "\<bar>t\<bar> \<le> 2 ^ 1001"
proof -
  have "1 / 2 ^ 1001 \<le> 1 / (2::real) ^ 1000" by simp
  with assms show "1 / 2 ^ 1001 \<le> \<bar>t\<bar>"
    unfolding f64_safe_def by linarith
  have "(2::real) ^ 1000 \<le> 2 ^ 1001" by simp
  with assms show "\<bar>t\<bar> \<le> 2 ^ 1001"
    unfolding f64_safe_def by linarith
qed

lemma rounded_quotient:
  assumes "c \<noteq> 0" and "1 / 2 ^ 1001 \<le> \<bar>x / c\<bar>" and "\<bar>x / c\<bar> \<le> 2 ^ 1001"
  shows "\<exists>r. f64_div (Fin x) (Fin c) = Fin r \<and> \<bar>r - x / c\<bar> \<le> \<bar>x / c\<bar> / 2 ^ 53"
proof -
  have lo: "1 / 2 ^ 1022 \<le> \<bar>x / c\<bar>"
    using assms(2) by (rule order_trans [rotated]) simp
  have hi: "\<bar>x / c\<bar> \<le> 2 ^ 1023"
    using assms(3) by (rule order_trans) simp
  have "f64_div (Fin x) (Fin c) = b64 (x / c)"
    using assms(1) to_range_mid [OF lo hi] by (simp add: f64_div_def)
  with b64_normal [OF lo hi] show ?thesis by simp
qed

lemma rounded_product:
  assumes "1 / 2 ^ 1001 \<le> \<bar>x * y\<bar>" and "\<bar>x * y\<bar> \<le> 2 ^ 1001"
  shows "\<exists>r. f64_mul (Fin x) (Fin y) = Fin r \<and> \<bar>r - x * y\<bar> \<le> \<bar>x * y\<bar> / 2 ^ 53"
proof -
  have lo: "1 / 2 ^ 1022 \<le> \<bar>x * y\<bar>"
    using assms(1) by (rule order_trans [rotated]) simp
  have hi: "\<bar>x * y\<bar> \<le> 2 ^ 1023"
    using assms(2) by (rule order_trans) simp
  have "f64_mul (Fin x) (Fin y) = b64 (x * y)"
    by (simp add: f64_mul_def)
  with b64_normal [OF lo hi] show ?thesis by simp
qed

lemma chain_and_single_division:
  assumes s1: "f64_safe (x / c1)" and sm: "f64_safe (c1 * c2)"
    and sq: "f64_safe (x / (c1 * c2))"
  shows "\<exists>b s. f64_div (f64_div (Fin x) (Fin c1)) (Fin c2) = Fin b \<and>
               f64_div (Fin x) (f64_mul (Fin c1) (Fin c2)) = Fin s \<and>
               \<bar>b - x / (c1 * c2)\<bar> \<le> \<bar>x / (c1 * c2)\<bar> / 2 ^ 51 \<and>
               \<bar>s - x / (c1 * c2)\<bar> \<le> \<bar>x / (c1 * c2)\<bar> / 2 ^ 51"
proof -
  define q where "q = x / (c1 * c2)"
  define m where "m = c1 * c2"
  have tiny: "0 < 1 / (2::real) ^ 1000" by simp
  have mnz: "m \<noteq> 0" using sm tiny by (auto simp: f64_safe_def m_def)
  then have c1: "c1 \<noteq> 0" and c2: "c2 \<noteq> 0" by (auto simp: m_def)
  define lo :: real where "lo = 1 / 2 ^ 1000"
  define hi :: real where "hi = 2 ^ 1000"
  have qlo: "lo \<le> \<bar>q\<bar>" and qhi: "\<bar>q\<bar> \<le> hi"
    using sq by (simp_all add: f64_safe_def q_def lo_def hi_def)
  have q_div: "q = (x / c1) / c2" by (simp add: q_def)
  from rounded_quotient [OF c1 safe_wider [OF s1]] obtain a where
    a: "f64_div (Fin x) (Fin c1) = Fin a" and ea: "\<bar>a - x / c1\<bar> \<le> \<bar>x / c1\<bar> / 2 ^ 53"
    by blast
  have "a / c2 - q = (a - x / c1) / c2"
    by (simp add: q_div diff_divide_distrib)
  then have "\<bar>a / c2 - q\<bar> = \<bar>a - x / c1\<bar> / \<bar>c2\<bar>" by simp
  also have "\<dots> \<le> (\<bar>x / c1\<bar> / 2 ^ 53) / \<bar>c2\<bar>"
    using ea by (rule divide_right_mono) simp
  also have "\<dots> = \<bar>q\<bar> / 2 ^ 53" by (simp add: q_div abs_mult)
  finally have e2: "\<bar>a / c2 - q\<bar> \<le> \<bar>q\<bar> / 2 ^ 53" .
  have h1: "1 / 2 ^ 1001 = lo / 2" and h2: "2 ^ 1001 = 2 * hi"
    by (simp_all add: lo_def hi_def)
  have q53: "\<bar>q\<bar> / 2 ^ 53 \<le> \<bar>q\<bar> / 2"
    by (rule divide_left_mono) simp_all
  have a2lo: "1 / 2 ^ 1001 \<le> \<bar>a / c2\<bar>"
    unfolding h1 using e2 qlo q53 by linarith
  have a2hi: "\<bar>a / c2\<bar> \<le> 2 ^ 1001"
    unfolding h2 using e2 qhi q53 by linarith
  from rounded_quotient [OF c2 a2lo a2hi] obtain b where
    b: "f64_div (Fin a) (Fin c2) = Fin b" and eb: "\<bar>b - a / c2\<bar> \<le> \<bar>a / c2\<bar> / 2 ^ 53"
    by blast
  have tb: "\<bar>b - q\<bar> \<le> \<bar>b - a / c2\<bar> + \<bar>a / c2 - q\<bar>"
    and ta: "\<bar>a / c2\<bar> \<le> \<bar>q\<bar> + \<bar>a / c2 - q\<bar>" by linarith+
  have "\<bar>a / c2\<bar> \<le> 2 * \<bar>q\<bar>"
    using ta e2 q53 by linarith
  then have "\<bar>a / c2\<bar> / 2 ^ 53 \<le> 2 * \<bar>q\<bar> / 2 ^ 53"
    by (rule divide_right_mono) simp
  then have "\<bar>b - q\<bar> \<le> 2 * \<bar>q\<bar> / 2 ^ 53 + \<bar>q\<bar> / 2 ^ 53"
    using tb eb e2 by linarith
  also have "\<dots> \<le> \<bar>q\<bar> / 2 ^ 51" by simp
  finally have bq: "\<bar>b - q\<bar> \<le> \<bar>q\<bar> / 2 ^ 51" .
  from rounded_product [OF safe_wider [OF sm]] obtain p where
    p: "f64_mul (Fin c1) (Fin c2) = Fin p" and ep: "\<bar>p - m\<bar> \<le> \<bar>m\<bar> / 2 ^ 53"
    by (auto simp: m_def)
  have mpos: "0 < \<bar>m\<bar>" using mnz by simp
  have pnz: "p \<noteq> 0"
  proof
    assume "p = 0"
    with ep have "\<bar>m\<bar> \<le> \<bar>m\<bar> / 2 ^ 53" by simp
    with mpos show False by simp
  qed
  have rel: "\<bar>m - p\<bar> / \<bar>m\<bar> \<le> 1 / 2 ^ 53"
    using ep mpos by (simp add: pos_divide_le_eq abs_minus_commute)
  have "x / p - q = (x / p) * ((m - p) / m)"
    using pnz mnz by (simp add: q_def m_def [symmetric] field_simps)
  then have "\<bar>x / p - q\<bar> = \<bar>x / p\<bar> * (\<bar>m - p\<bar> / \<bar>m\<bar>)"
    by (simp add: abs_mult)
  also have "\<dots> \<le> \<bar>x / p\<bar> * (1 / 2 ^ 53)"
    using rel by (rule mult_left_mono) simp
  finally have "\<bar>x / p - q\<bar> \<le> \<bar>x / p\<bar> / 2 ^ 53" by simp
  define w where "w = x / p"
  define u :: real where "u = 1 / 2 ^ 53"
  have e4: "\<bar>w - q\<bar> \<le> u * \<bar>w\<bar>"
    using \<open>\<bar>x / p - q\<bar> \<le> \<bar>x / p\<bar> / 2 ^ 53\<close> by (simp add: w_def u_def)
  have u: "0 \<le> u" "u \<le> 1 / 2" by (simp_all add: u_def)
  have uw: "u * \<bar>w\<bar> \<le> (1 / 2) * \<bar>w\<bar>"
    using u(2) by (rule mult_right_mono) simp
  have lo0: "0 \<le> lo" by (simp add: lo_def)
  have wq: "\<bar>q\<bar> \<le> \<bar>w\<bar> + \<bar>w - q\<bar>" and qw: "\<bar>w\<bar> \<le> \<bar>q\<bar> + \<bar>w - q\<bar>"
    by linarith+
  have xplo: "1 / 2 ^ 1001 \<le> \<bar>x / p\<bar>"
    unfolding h1 w_def [symmetric] using wq e4 uw qlo lo0 by linarith
  have w2: "\<bar>w\<bar> \<le> 2 * \<bar>q\<bar>"
    using qw e4 uw by linarith
  have xphi: "\<bar>x / p\<bar> \<le> 2 ^ 1001"
    unfolding h2 w_def [symmetric] using w2 qhi by linarith
  from rounded_quotient [OF pnz xplo xphi] obtain s where
    s: "f64_div (Fin x) (Fin p) = Fin s" and "\<bar>s - x / p\<bar> \<le> \<bar>x / p\<bar> / 2 ^ 53"
    by blast
  then have es: "\<bar>s - w\<bar> \<le> u * \<bar>w\<bar>" by (simp add: w_def u_def)
  have "u * \<bar>w\<bar> \<le> u * (2 * \<bar>q\<bar>)"
    using w2 u(1) by (rule mult_left_mono)
  moreover have "\<bar>s - q\<bar> \<le> \<bar>s - w\<bar> + \<bar>w - q\<bar>" by linarith
  ultimately have "\<bar>s - q\<bar> \<le> 4 * (u * \<bar>q\<bar>)"
    using es e4 by linarith
  then have sq': "\<bar>s - q\<bar> \<le> \<bar>q\<bar> / 2 ^ 51" by (simp add: u_def)
  from a b p s bq sq' show ?thesis by (auto simp: q_def)
qed




lemma f64_log10_not_nan: "0 < a \<Longrightarrow> f64_log10 (Fin a) \<noteq> NaN"
  by (simp add: f64_log10_def b64_not_nan)









section \<open>Properties of the aperture correction chain\<close>

text \<open>
  Claim C2. For every raw flux and correction factors \<open>c1 \<noteq> 0\<close> and \<open>c2 \<noteq> 0\<close>, the chain
  returns \<open>flux_medium = flux_raw / c1\<close> (the array \<^verbatim>\<open>flux05\<close>) and
  \<open>flux_inf = flux_medium / c2\<close>, for every element of the array of raw fluxes, as long
  as the two quotients are in the normal range of binary64 (outside it the division
  returns an infinity or zero). The example that follows is the one of the
  specification: \<open>flux_raw = 10\<close>, \<open>c1 = 0.5\<close>, \<open>c2 = 0.9\<close> give \<open>flux_medium = 20\<close> and
  \<open>flux_inf = 200/9\<close>, which is 22.222 to three decimals.
\<close>

theorem aperture_chain_quotients:
  assumes "c1 \<noteq> 0" and "c2 \<noteq> 0"
    and "\<forall>x\<in>set raw. f64_normal (x / c1) \<and> f64_normal ((x / c1) / c2)"
  shows "flux05 (map Fin raw) (Fin c1) = map (\<lambda>x. Fin (x / c1)) raw \<and>
         flux_inf (map Fin raw) (Fin c1) (Fin c2) = map (\<lambda>x. Fin ((x / c1) / c2)) raw"
  using assms by (simp add: flux_inf_def flux05_def np_div_normal del: np_div.simps)

theorem aperture_chain_example:
  "(1 / 2 :: real) \<noteq> 0 \<and> (9 / 10 :: real) \<noteq> 0 \<and>
   f64_normal (10 / (1 / 2)) \<and> f64_normal ((10 / (1 / 2)) / (9 / 10)) \<and>
   flux05 [Fin 10] (Fin (1 / 2)) = [Fin 20] \<and>
   flux_inf [Fin 10] (Fin (1 / 2)) (Fin (9 / 10)) = [Fin (200 / 9)] \<and>
   \<bar>200 / 9 - 22.222\<bar> < (0.001 :: real)"
proof -
  have n: "f64_normal (10 / (1 / 2))" "f64_normal ((10 / (1 / 2)) / (9 / 10))"
    by (simp_all add: f64_normal_def)
  with aperture_chain_quotients [of "1 / 2" "9 / 10" "[10]"] show ?thesis by simp
qed

text \<open>
  Outside the range the chain does not return the quotient: the quotient of the largest
  power of two by one half overflows, and that of the smallest positive float64 by two
  underflows.
\<close>

lemma aperture_chain_out_of_range:
  "flux05 [Fin (2 ^ 1023)] (Fin (1 / 2)) = [PInf] \<and>
   flux05 [Fin (1 / 2 ^ 1074)] (Fin 2) = [Fin 0]"
  by (simp add: flux05_def to_range_def f64_overflow_def f64_underflow_def)

text \<open>
  Claim C6 says that a correction factor equal to zero is flagged as invalid input
  instead of being divided by. The notebook has no such check: the two cells divide,
  and numpy returns an infinity (or NaN for a raw flux of zero) as the corrected flux.
\<close>

theorem zero_correction_is_divided_by:
  "flux05 [Fin 10] (Fin 0) = [PInf] \<and>
   flux_inf [Fin 10] (Fin 0) (Fin 0.9) = [PInf] \<and>
   flux_inf [Fin 10] (Fin 0.5) (Fin 0) = [PInf] \<and>
   flux_inf [Fin 0] (Fin 0) (Fin 0.9) = [NaN]"
  by (simp add: flux_inf_def flux05_def to_range_def f64_overflow_def f64_underflow_def)

text \<open>
  Claim C6, as the code has it: when \<open>c1 = 0\<close> or \<open>c2 = 0\<close> the chain still returns an
  array with one corrected flux per raw flux, and every one of them is an infinity or
  NaN, whatever the raw flux is.
\<close>

theorem zero_correction_gives_inf_or_nan:
  assumes "c1 = 0 \<or> c2 = 0"
  shows "length (flux_inf raw (Fin c1) (Fin c2)) = length raw \<and>
         list_all (\<lambda>y. \<not> is_finite y) (flux_inf raw (Fin c1) (Fin c2))"
  using assms
  by (simp add: flux_inf_def flux05_def list_all_iff division_by_zero_not_finite
      del: np_div.simps)

theorem zero_correction_gives_inf_or_nan_example:
  "length (flux_inf [Fin 10, Fin 0] (Fin 0) (Fin 0.9)) = 2 \<and>
   list_all (\<lambda>y. \<not> is_finite y) (flux_inf [Fin 10, Fin 0] (Fin 0) (Fin 0.9))"
  using zero_correction_gives_inf_or_nan [of 0 "0.9" "[Fin 10, Fin 0]"] by simp

text \<open>
  Claim C10 says that for every raw flux and nonzero correction factors the two
  divisions of the chain equal a single division by the product,
  \<open>(flux_raw / c1) / c2 = flux_raw / (c1 * c2)\<close>. This is an identity of the reals, not
  of float64: for \<open>flux_raw = 10\<close>, \<open>c1 = 3\<close>, \<open>c2 = 10\<close> the chain returns
  \<open>6004799503160662 / 2^54\<close> (0.33333333333333337) and the single division
  \<open>6004799503160661 / 2^54\<close> (0.3333333333333333), one unit in the last place less.
\<close>

theorem chain_is_not_single_division:
  "flux_inf_f64 [Fin 10] (Fin 3) (Fin 10) = [Fin (6004799503160662 / 2 ^ 54)] \<and>
   single_division_f64 (Fin 10) (Fin 3) (Fin 10) = Fin (6004799503160661 / 2 ^ 54) \<and>
   flux_inf_f64 [Fin 10] (Fin 3) (Fin 10) ! 0 \<noteq> single_division_f64 (Fin 10) (Fin 3) (Fin 10)"
  using chain_example single_example by (simp add: single_division_f64_def)

text \<open>
  Claim C10, as the code has it: for the raw flux \<open>x\<close> at index \<open>i\<close> and correction
  factors \<open>c1\<close> and \<open>c2\<close> such that \<open>x / c1\<close>, \<open>c1 * c2\<close> and \<open>x / (c1 * c2)\<close> are safe,
  the corrected flux of the chain and the single division by the product are both
  finite and within one part in \<open>2^51\<close> of the exact quotient \<open>x / (c1 * c2)\<close>, so that
  they differ from each other by at most one part in \<open>2^50\<close> of it.
\<close>

theorem chain_close_to_single_division:
  assumes "i < length raw" and "raw ! i = Fin x"
    and "f64_safe (x / c1)" and "f64_safe (c1 * c2)" and "f64_safe (x / (c1 * c2))"
  shows "\<exists>b s. flux_inf_f64 raw (Fin c1) (Fin c2) ! i = Fin b \<and>
           single_division_f64 (Fin x) (Fin c1) (Fin c2) = Fin s \<and>
           \<bar>b - x / (c1 * c2)\<bar> \<le> \<bar>x / (c1 * c2)\<bar> / 2 ^ 51 \<and>
           \<bar>s - x / (c1 * c2)\<bar> \<le> \<bar>x / (c1 * c2)\<bar> / 2 ^ 51 \<and>
           \<bar>b - s\<bar> \<le> \<bar>x / (c1 * c2)\<bar> / 2 ^ 50"
proof -
  define q where "q = x / (c1 * c2)"
  from chain_and_single_division [OF assms(3-5)] obtain b s where
    b: "f64_div (f64_div (Fin x) (Fin c1)) (Fin c2) = Fin b" and
    s: "f64_div (Fin x) (f64_mul (Fin c1) (Fin c2)) = Fin s" and
    eb: "\<bar>b - q\<bar> \<le> \<bar>q\<bar> / 2 ^ 51" and es: "\<bar>s - q\<bar> \<le> \<bar>q\<bar> / 2 ^ 51"
    unfolding q_def by blast
  have "flux_inf_f64 raw (Fin c1) (Fin c2) ! i = Fin b"
    using assms(1,2) b by (simp add: flux_inf_f64_def flux05_f64_def)
  moreover have "single_division_f64 (Fin x) (Fin c1) (Fin c2) = Fin s"
    using s by (simp add: single_division_f64_def)
  moreover have "\<bar>b - s\<bar> \<le> \<bar>q\<bar> / 2 ^ 50"
  proof -
    define u where "u = \<bar>q\<bar> / 2 ^ 51"
    have "\<bar>q\<bar> / 2 ^ 50 = 2 * u" by (simp add: u_def)
    moreover have "\<bar>b - s\<bar> \<le> \<bar>b - q\<bar> + \<bar>s - q\<bar>" by linarith
    ultimately show ?thesis using eb es unfolding u_def [symmetric] by linarith
  qed
  ultimately show ?thesis using eb es unfolding q_def by blast
qed

theorem chain_close_to_single_division_example:
  "\<exists>b s. flux_inf_f64 [Fin 10] (Fin 3) (Fin 10) ! 0 = Fin b \<and>
     single_division_f64 (Fin 10) (Fin 3) (Fin 10) = Fin s \<and>
     \<bar>b - 10 / (3 * 10)\<bar> \<le> \<bar>10 / (3 * 10)\<bar> / 2 ^ 51 \<and>
     \<bar>s - 10 / (3 * 10)\<bar> \<le> \<bar>10 / (3 * 10)\<bar> / 2 ^ 51 \<and>
     \<bar>b - s\<bar> \<le> \<bar>10 / (3 * 10)\<bar> / 2 ^ 50"
  using chain_close_to_single_division [where i = 0 and raw = "[Fin 10]" and x = 10
      and ?c1.0 = 3 and ?c2.0 = 10]
  by (simp add: f64_safe_def)

section \<open>Properties of the zeropoints\<close>

text \<open>
  Claim C1. For \<open>photflam > 0\<close> and \<open>photplam > 0\<close> the zeropoints are the finite numbers
  \<open>zp_st = -2.5 log10(photflam) - 21.10\<close> and
  \<open>zp_ab = -2.5 log10(photflam) - 5 log10(photplam) - 2.408\<close>. The example is the one
  of the specification, \<open>photflam = 1e-18\<close> and \<open>photplam = 5500\<close>.
\<close>

theorem zeropoint_formulas:
  assumes "0 < photflam" and "0 < photplam"
  shows "zp_stmag (Fin photflam) = Fin (- 2.5 * log 10 photflam - 21.10) \<and>
         zp_abmag (Fin photflam) (Fin photplam) =
           Fin (- 2.5 * log 10 photflam - 5 * log 10 photplam - 2.408)"
  using assms by (simp add: zp_stmag_def zp_abmag_def np_sub_def)

theorem zeropoint_formulas_example:
  "zp_stmag (Fin (1 / 10 ^ 18)) = Fin 23.9 \<and>
   zp_abmag (Fin (1 / 10 ^ 18)) (Fin 5500) = Fin (42.592 - 5 * log 10 5500)"
  using zeropoint_formulas [of "1 / 10 ^ 18" 5500] log10_tenth_power_18 by simp

section \<open>Properties of the flux densities and magnitudes\<close>

text \<open>
  Claim C3. For a corrected flux \<open>flux_inf > 0\<close> (the element of index \<open>i\<close> of the array),
  a calibration constant \<open>photflam\<close> whose product with the flux is in the normal range
  of binary64, and zeropoints \<open>zp_st\<close>, \<open>zp_ab\<close>, \<open>zp_vega\<close>, the converter returns at
  index \<open>i\<close>
  \<open>f_lambda = flux_inf * photflam\<close>, \<open>st_mag = -2.5 log10(flux_inf) + zp_st\<close>,
  \<open>ab_mag = -2.5 log10(flux_inf) + zp_ab\<close> and \<open>vega_mag = -2.5 log10(flux_inf) + zp_vega\<close>.
  There is one photometry result per measurement: the table of these four columns and
  of the measured fluxes is built without an error, has as many rows as there are
  fluxes, and its row of index \<open>i\<close> holds the measured flux of index \<open>i\<close> and the four
  values above; and the table of the notebook has, for any input, as many rows as
  measured fluxes, the row of index \<open>k\<close> holding the measured flux of index \<open>k\<close>.
\<close>

theorem magnitude_converter_formulas:
  assumes "i < length fluxinf" and "fluxinf ! i = Fin x" and "0 < x"
    and "f64_normal (x * photflam)"
    and "length measured = length fluxinf"
  shows "f_lambda fluxinf (Fin photflam) ! i = Fin (x * photflam) \<and>
         stmags fluxinf (Fin zp_st) ! i = Fin (- 2.5 * log 10 x + zp_st) \<and>
         abmags fluxinf (Fin zp_ab) ! i = Fin (- 2.5 * log 10 x + zp_ab) \<and>
         vegamags fluxinf (Fin zp_vega) ! i = Fin (- 2.5 * log 10 x + zp_vega) \<and>
         (\<exists>rows. Table measured (f_lambda fluxinf (Fin photflam))
                    (stmags fluxinf (Fin zp_st)) (abmags fluxinf (Fin zp_ab))
                    (vegamags fluxinf (Fin zp_vega)) = Inr rows \<and>
            length rows = length fluxinf \<and>
            rows ! i =
              \<lparr>Measured_Flux = measured ! i,
               F_lambda = Fin (x * photflam),
               ST_Mag = Fin (- 2.5 * log 10 x + zp_st),
               AB_Mag = Fin (- 2.5 * log 10 x + zp_ab),
               Vega_Mag = Fin (- 2.5 * log 10 x + zp_vega)\<rparr>) \<and>
         (\<exists>rows. phot_table raw c1 c2 pf pp zv = Inr rows \<and>
            length rows = length raw \<and>
            (\<forall>k < length raw. Measured_Flux (rows ! k) = raw ! k))"
proof -
  have f: "f_lambda fluxinf (Fin photflam) ! i = Fin (x * photflam)"
    using assms(1,2) by (simp add: f_lambda_def)
  have s: "stmags fluxinf (Fin zp_st) ! i = Fin (- 2.5 * log 10 x + zp_st)"
    using assms(1-3) by (simp add: stmags_def)
  have a: "abmags fluxinf (Fin zp_ab) ! i = Fin (- 2.5 * log 10 x + zp_ab)"
    using assms(1-3) by (simp add: abmags_def)
  have v: "vegamags fluxinf (Fin zp_vega) ! i = Fin (- 2.5 * log 10 x + zp_vega)"
    using assms(1-3) by (simp add: vegamags_def)
  have len: "length (f_lambda fluxinf (Fin photflam)) = length measured"
    "length (stmags fluxinf (Fin zp_st)) = length measured"
    "length (abmags fluxinf (Fin zp_ab)) = length measured"
    "length (vegamags fluxinf (Fin zp_vega)) = length measured"
    using assms(5) by (simp_all add: f_lambda_def stmags_def abmags_def vegamags_def)
  let ?rows = "table_rows measured (f_lambda fluxinf (Fin photflam))
      (stmags fluxinf (Fin zp_st)) (abmags fluxinf (Fin zp_ab))
      (vegamags fluxinf (Fin zp_vega))"
  have t1: "Table measured (f_lambda fluxinf (Fin photflam))
      (stmags fluxinf (Fin zp_st)) (abmags fluxinf (Fin zp_ab))
      (vegamags fluxinf (Fin zp_vega)) = Inr ?rows"
    using len by (simp add: Table_def)
  have t2: "length ?rows = length fluxinf"
    using len assms(5) by (simp add: table_rows_length)
  have t3: "?rows ! i =
      \<lparr>Measured_Flux = measured ! i,
       F_lambda = Fin (x * photflam),
       ST_Mag = Fin (- 2.5 * log 10 x + zp_st),
       AB_Mag = Fin (- 2.5 * log 10 x + zp_ab),
       Vega_Mag = Fin (- 2.5 * log 10 x + zp_vega)\<rparr>"
    using len assms(1,5) f s a v by (simp add: table_rows_nth)
  have p: "\<exists>rows. phot_table raw c1 c2 pf pp zv = Inr rows \<and>
            length rows = length raw \<and>
            (\<forall>k < length raw. Measured_Flux (rows ! k) = raw ! k)"
    unfolding phot_table_rows by simp
  from t1 t2 t3 have t: "\<exists>rows. Table measured (f_lambda fluxinf (Fin photflam))
                    (stmags fluxinf (Fin zp_st)) (abmags fluxinf (Fin zp_ab))
                    (vegamags fluxinf (Fin zp_vega)) = Inr rows \<and>
            length rows = length fluxinf \<and>
            rows ! i =
              \<lparr>Measured_Flux = measured ! i,
               F_lambda = Fin (x * photflam),
               ST_Mag = Fin (- 2.5 * log 10 x + zp_st),
               AB_Mag = Fin (- 2.5 * log 10 x + zp_ab),
               Vega_Mag = Fin (- 2.5 * log 10 x + zp_vega)\<rparr>"
    by blast
  from f s a v t p show ?thesis by (intro conjI)
qed

text \<open>
  An example: corrected fluxes 1 and 10 of the measured fluxes 2 and 20, with
  \<open>photflam = 2\<close> and the zeropoints 3, 4 and 5; and the notebook's table of the
  measured fluxes 2 and 20 with \<open>c1 = 2\<close>, \<open>c2 = 1\<close>, \<open>photflam = photplam = 10\<close>,
  \<open>zp_vega = 5\<close>.
\<close>

theorem magnitude_converter_example:
  "f64_normal (10 * 2) \<and>
   f_lambda [Fin 1, Fin 10] (Fin 2) ! 1 = Fin 20 \<and>
   stmags [Fin 1, Fin 10] (Fin 3) ! 1 = Fin 0.5 \<and>
   abmags [Fin 1, Fin 10] (Fin 4) ! 1 = Fin 1.5 \<and>
   vegamags [Fin 1, Fin 10] (Fin 5) ! 1 = Fin 2.5 \<and>
   (\<exists>rows. Table [Fin 2, Fin 20] (f_lambda [Fin 1, Fin 10] (Fin 2))
              (stmags [Fin 1, Fin 10] (Fin 3)) (abmags [Fin 1, Fin 10] (Fin 4))
              (vegamags [Fin 1, Fin 10] (Fin 5)) = Inr rows \<and>
      length rows = 2 \<and>
      rows ! 1 = \<lparr>Measured_Flux = Fin 20, F_lambda = Fin 20, ST_Mag = Fin 0.5,
                  AB_Mag = Fin 1.5, Vega_Mag = Fin 2.5\<rparr>) \<and>
   phot_table [Fin 2, Fin 20] (Fin 2) (Fin 1) (Fin 10) (Fin 10) (Fin 5) =
     Inr [\<lparr>Measured_Flux = Fin 2, F_lambda = Fin 10, ST_Mag = Fin (- 23.6),
           AB_Mag = Fin (- 9.908), Vega_Mag = Fin 5\<rparr>,
          \<lparr>Measured_Flux = Fin 20, F_lambda = Fin 100, ST_Mag = Fin (- 26.1),
           AB_Mag = Fin (- 12.408), Vega_Mag = Fin 2.5\<rparr>]"
proof -
  have n: "f64_normal (10 * 2)"
    by (simp add: f64_normal_def)
  have p: "phot_table [Fin 2, Fin 20] (Fin 2) (Fin 1) (Fin 10) (Fin 10) (Fin 5) =
     Inr [\<lparr>Measured_Flux = Fin 2, F_lambda = Fin 10, ST_Mag = Fin (- 23.6),
           AB_Mag = Fin (- 9.908), Vega_Mag = Fin 5\<rparr>,
          \<lparr>Measured_Flux = Fin 20, F_lambda = Fin 100, ST_Mag = Fin (- 26.1),
           AB_Mag = Fin (- 12.408), Vega_Mag = Fin 2.5\<rparr>]"
    by (simp add: phot_table_rows zp_stmag_def zp_abmag_def np_sub_def to_range_def
        f64_overflow_def f64_underflow_def)
  from magnitude_converter_formulas [of 1 "[Fin 1, Fin 10]" 10 2 "[Fin 2, Fin 20]" 3 4 5
      "[Fin 2, Fin 20]" "Fin 2" "Fin 1" "Fin 10" "Fin 10" "Fin 5"] n p
  show ?thesis by (simp add: numeral_2_eq_2)
qed

text \<open>
  Claim C5 says that a corrected flux or a \<open>photflam\<close> that is zero or negative makes
  the computation raise or signal a domain error instead of returning NaN. The notebook
  checks neither and \<^verbatim>\<open>np.log10\<close> does not raise: a negative flux gets the magnitude
  NaN, the flux zero the magnitude \<open>+inf\<close>, and likewise for the zeropoint of a
  non-positive \<open>photflam\<close>; and the table is built from such columns as from any other.
\<close>

theorem nonpositive_is_not_rejected:
  "stmags [Fin (- 1)] (Fin 0) = [NaN] \<and>
   stmags [Fin 0] (Fin 0) = [PInf] \<and>
   zp_stmag (Fin (- 1)) = NaN \<and>
   zp_stmag (Fin 0) = PInf \<and>
   phot_table [Fin (- 1)] (Fin 1) (Fin 1) (Fin 1) (Fin 1) (Fin 0) =
     Inr [\<lparr>Measured_Flux = Fin (- 1), F_lambda = Fin (- 1), ST_Mag = NaN, AB_Mag = NaN,
           Vega_Mag = NaN\<rparr>]"
  by (simp add: phot_table_rows stmags_def zp_stmag_def np_sub_def to_range_def
      f64_overflow_def f64_underflow_def)

text \<open>
  Claim C5, as the code has it: for a corrected flux \<open>flux_inf \<le> 0\<close> (the element of
  index \<open>i\<close> of the array) and finite zeropoints, the three magnitudes at index \<open>i\<close> are
  NaN when the flux is negative and \<open>+inf\<close> when it is zero; for \<open>photflam \<le> 0\<close> (and
  \<open>photplam > 0\<close>) the two zeropoints are NaN when \<open>photflam\<close> is negative and \<open>+inf\<close>
  when it is zero. The arrays and the zeropoints are returned; nothing is raised.
\<close>

theorem nonpositive_gives_nan_or_inf:
  assumes "i < length fluxinf" and "fluxinf ! i = Fin x" and "x \<le> 0"
    and "photflam \<le> 0" and "0 < photplam"
  shows "stmags fluxinf (Fin zp_st) ! i = (if x < 0 then NaN else PInf) \<and>
         abmags fluxinf (Fin zp_ab) ! i = (if x < 0 then NaN else PInf) \<and>
         vegamags fluxinf (Fin zp_vega) ! i = (if x < 0 then NaN else PInf) \<and>
         zp_stmag (Fin photflam) = (if photflam < 0 then NaN else PInf) \<and>
         zp_abmag (Fin photflam) (Fin photplam) = (if photflam < 0 then NaN else PInf)"
proof -
  have "stmags fluxinf (Fin zp_st) ! i = (if x < 0 then NaN else PInf)"
    using assms(1-3) by (simp add: stmags_def)
  moreover have "abmags fluxinf (Fin zp_ab) ! i = (if x < 0 then NaN else PInf)"
    using assms(1-3) by (simp add: abmags_def)
  moreover have "vegamags fluxinf (Fin zp_vega) ! i = (if x < 0 then NaN else PInf)"
    using assms(1-3) by (simp add: vegamags_def)
  moreover have "zp_stmag (Fin photflam) = (if photflam < 0 then NaN else PInf)"
    using assms(4) by (simp add: zp_stmag_def np_sub_def)
  moreover have "zp_abmag (Fin photflam) (Fin photplam) = (if photflam < 0 then NaN else PInf)"
    using assms(4,5) by (simp add: zp_abmag_def np_sub_def)
  ultimately show ?thesis by simp
qed

theorem nonpositive_gives_nan_or_inf_example:
  "stmags [Fin 4, Fin (- 3), Fin 0] (Fin 1) ! 1 = NaN \<and>
   abmags [Fin 4, Fin (- 3), Fin 0] (Fin 2) ! 1 = NaN \<and>
   vegamags [Fin 4, Fin (- 3), Fin 0] (Fin 3) ! 1 = NaN \<and>
   zp_stmag (Fin 0) = PInf \<and> zp_abmag (Fin 0) (Fin 5500) = PInf"
  using nonpositive_gives_nan_or_inf [of 1 "[Fin 4, Fin (- 3), Fin 0]" "- 3" 0 5500 1 2 3]
  by simp




section \<open>Independence of the results\<close>

text \<open>
  Claim C9. The photometry result of index \<open>i\<close> depends only on the measured flux of
  index \<open>i\<close> and on the shared constants (the correction factors, the calibration
  constants and the VegaMag zeropoint): two measurement sets that agree at index \<open>i\<close>
  give the same result at index \<open>i\<close>, which is also the one result of the set that holds
  this measurement alone.
\<close>

theorem result_depends_on_own_flux:
  assumes "i < length xs" and "i < length ys" and "xs ! i = ys ! i"
  shows "\<exists>rx ry r. phot_table xs c1 c2 pf pp zv = Inr rx \<and>
                  phot_table ys c1 c2 pf pp zv = Inr ry \<and>
                  phot_table [xs ! i] c1 c2 pf pp zv = Inr [r] \<and>
                  length rx = length xs \<and> length ry = length ys \<and>
                  rx ! i = r \<and> ry ! i = r"
  using assms by (simp add: phot_table_rows)

theorem result_depends_on_own_flux_example:
  "\<exists>rx ry r.
     phot_table [Fin 1, Fin 2] (Fin 0.8) (Fin 0.915) (Fin 3) (Fin 4) (Fin 5) = Inr rx \<and>
     phot_table [Fin 7, Fin 2, Fin 9] (Fin 0.8) (Fin 0.915) (Fin 3) (Fin 4) (Fin 5) = Inr ry \<and>
     phot_table [Fin 2] (Fin 0.8) (Fin 0.915) (Fin 3) (Fin 4) (Fin 5) = Inr [r] \<and>
     length rx = 2 \<and> length ry = 3 \<and> rx ! 1 = r \<and> ry ! 1 = r"
  using result_depends_on_own_flux [of 1 "[Fin 1, Fin 2]" "[Fin 7, Fin 2, Fin 9]" "Fin 0.8"
      "Fin 0.915" "Fin 3" "Fin 4" "Fin 5"]
  by (simp add: numeral_2_eq_2 numeral_3_eq_3)

end
